theory Spec2Isabelle
  imports Main "HOL-Library.AList"
begin

section \<open>Time, identifiers and the environment\<close>

text \<open>
  A \<open>time.Time\<close> is an instant counted in nanoseconds since the Unix epoch, a
  \<open>time.Duration\<close> a number of nanoseconds. Both are unbounded integers here; no
  claim depends on the 64-bit range of a duration.
\<close>

type_synonym time = int
type_synonym duration = int

definition Second :: duration where
  "Second = 1000000000"

definition Hour :: duration where
  "Hour = 3600 * Second"

text \<open>
  The code reads the clock with \<open>time.Now()\<close> and draws identifiers with
  \<open>uuid.New()\<close>. Both are reads of the environment: the \<open>world\<close> carries the
  clock, which moves forward by \<open>tick w n\<close> nanoseconds after its \<open>n\<close>-th read
  (so it never runs backwards), and the source of identifiers, which hands out
  \<open>uuid_src w n\<close> at the \<open>n\<close>-th draw.
\<close>

record world =
  clock :: time
  tick :: "nat \<Rightarrow> nat"
  reads :: nat
  uuid_src :: "nat \<Rightarrow> string"
  draws :: nat

definition time_Now :: "world \<Rightarrow> time \<times> world" where
  "time_Now w =
     (clock w, w\<lparr>clock := clock w + int (tick w (reads w)), reads := Suc (reads w)\<rparr>)"

definition uuid_New :: "world \<Rightarrow> string \<times> world" where
  "uuid_New w = (uuid_src w (draws w), w\<lparr>draws := Suc (draws w)\<rparr>)"


section \<open>Package jwt: claims, options, tokens\<close>

text \<open>
  \<open>Options\<close> and \<open>Claims\<close> are the structs of the package. \<open>RegisteredClaims\<close>
  is the embedded struct of the JWT library; its fields \<open>Subject\<close> and
  \<open>Audience\<close> are left out, since \<open>generateToken\<close> resets the whole struct and
  never sets them. A \<open>*NumericDate\<close> is a \<open>time option\<close>. A Go map is an
  association list read with \<open>map_of\<close>, and \<open>None\<close> is the nil map.
\<close>

datatype signing_method = HS256 | HS384 | HS512 | RS256

record Options =
  SignKey :: string
  AccessExpire :: duration
  RefreshExpire :: duration
  Method :: signing_method
  Issuer :: string

record RegisteredClaims =
  Issuer :: string
  ExpiresAt :: "time option"
  NotBefore :: "time option"
  IssuedAt :: "time option"
  ID :: string

record Claims = RegisteredClaims +
  UserId :: string
  SSID :: string
  Data :: "(string \<times> string) list option"

text \<open>
  The library is outside the repository; it is modelled symbolically. A token string is
  either \<open>JWS alg key c\<close>, the compact serialisation of the header with algorithm
  \<open>alg\<close>, the payload \<open>c\<close> and a signature made with \<open>key\<close>, or
  \<open>Malformed s\<close>, any other string \<open>s\<close> (the empty string is \<open>Malformed []\<close>).
  So signatures cannot be forged and the JSON encoding of a claim set loses nothing
  (strings are taken to be valid UTF-8).
\<close>

datatype token = Malformed string | JWS signing_method string Claims

record TokenPair =
  AccessToken :: token
  RefreshToken :: token

datatype claims_error = ErrTokenExpired | ErrTokenNotValidYet

datatype jwt_error =
    ErrTokenMalformed
  | ErrTokenUnverifiable
  | ErrTokenSignatureInvalid
  | ErrTokenInvalidClaims "claims_error list"
  | ErrInvalidKeyType

text \<open>
  The errors of the repository, one constructor for each place that makes one. The
  messages of the source are Chinese; each constructor is named after its message, and a
  constructor with an argument wraps that error (\<open>%w\<close>).
\<close>

datatype error =
    JwtError jwt_error
  | ErrUnexpectedMethod
  | ErrGenerateAccessToken error
  | ErrGenerateRefreshToken error
  | ErrParseToken error
  | ErrInvalidToken
  | ErrSessionNotFound
  | ErrSessionExpired
  | ErrKeyNotFound
  | ErrTokenNotFound
  | ErrNoRefreshToken
  | ErrSessionMissing
  | ErrSessionOverdue
  | ErrNoToken
  | ErrVerifyToken error
  | ErrVerifyRefreshToken error
  | ErrCheckSession error
  | ErrSessionGone
  | ErrGenerateToken error
  | ErrGenerateNewToken error
  | ErrInitSession error
  | ErrMarshal error
  | ErrStore error
  | ErrUnsupportedType
  | ErrRedisIO

text \<open>
  \<open>jwt.NewNumericDate\<close> truncates the instant to the library's \<open>TimePrecision\<close>,
  one second by default, which the repository never changes. \<open>SignedString\<close> with
  a byte-slice key succeeds for the HMAC methods and fails for \<open>RS256\<close>, which
  wants an RSA key.
\<close>

definition NewNumericDate :: "time \<Rightarrow> time" where
  "NewNumericDate t = (t div Second) * Second"

definition SignedString :: "signing_method \<Rightarrow> string \<Rightarrow> Claims \<Rightarrow> jwt_error + token" where
  "SignedString alg key c = (if alg = RS256 then Inl ErrInvalidKeyType else Inr (JWS alg key c))"

text \<open>
  The library's validator, with no leeway and no issued-at check (the defaults): a token
  is expired unless \<open>now < exp\<close>, and not yet valid when \<open>now < nbf\<close>; the errors
  that apply are joined.
\<close>

definition Validate :: "time \<Rightarrow> Claims \<Rightarrow> claims_error list" where
  "Validate now c =
     (case ExpiresAt c of
        None \<Rightarrow> []
      | Some e \<Rightarrow> if now < e then [] else [ErrTokenExpired]) @
     (case NotBefore c of
        None \<Rightarrow> []
      | Some n \<Rightarrow> if now < n then [ErrTokenNotValidYet] else [])"

text \<open>
  \<open>jwt.ParseWithClaims\<close>: split and decode; ask the key function for the key,
  giving it the token's method; check the signature; validate the claims against the
  clock; only then is the token \<open>Valid\<close>. The clock is read only when the
  signature holds.
\<close>

definition ParseWithClaims ::
  "world \<Rightarrow> token \<Rightarrow> (signing_method \<Rightarrow> error + string) \<Rightarrow> (jwt_error + bool \<times> Claims) \<times> world" where
  "ParseWithClaims w tokenString keyFunc =
     (case tokenString of
        Malformed s \<Rightarrow> (Inl ErrTokenMalformed, w)
      | JWS alg key c \<Rightarrow>
          (case keyFunc alg of
             Inl e \<Rightarrow> (Inl ErrTokenUnverifiable, w)
           | Inr k \<Rightarrow>
               if alg = RS256 \<or> key \<noteq> k then (Inl ErrTokenSignatureInvalid, w)
               else
                 (let (now, w1) = time_Now w;
                      errs = Validate now c
                  in if errs = [] then (Inr (True, c), w1)
                     else (Inl (ErrTokenInvalidClaims errs), w1))))"


section \<open>Package jwt: the manager\<close>

text \<open>The manager holds its options only, so a manager is an \<open>Options\<close>.\<close>

definition NewOptions :: "string \<Rightarrow> duration \<Rightarrow> duration \<Rightarrow> Options" where
  "NewOptions signKey accessExpire refreshExpire =
     \<lparr>SignKey = signKey, AccessExpire = accessExpire, RefreshExpire = refreshExpire,
      Method = HS256, Issuer = ''gint''\<rparr>"

definition NewManager :: "Options \<Rightarrow> Options" where
  "NewManager opts = opts"

definition generateToken ::
  "Options \<Rightarrow> world \<Rightarrow> Claims \<Rightarrow> duration \<Rightarrow> (error + token) \<times> world" where
  "generateToken m w claims expire =
     (let (now, w1) = time_Now w;
          (u, w2) = uuid_New w1;
          claims' = claims\<lparr>Issuer := Options.Issuer m,
                           ExpiresAt := Some (NewNumericDate (now + expire)),
                           IssuedAt := Some (NewNumericDate now),
                           NotBefore := Some (NewNumericDate now),
                           ID := u\<rparr>
      in (case SignedString (Method m) (SignKey m) claims' of
            Inl e \<Rightarrow> (Inl (JwtError e), w2)
          | Inr t \<Rightarrow> (Inr t, w2)))"

definition GenerateToken :: "Options \<Rightarrow> world \<Rightarrow> Claims \<Rightarrow> (error + token) \<times> world" where
  "GenerateToken m w claims = generateToken m w claims (AccessExpire m)"

definition GenerateTokenPair ::
  "Options \<Rightarrow> world \<Rightarrow> Claims \<Rightarrow> (error + TokenPair) \<times> world" where
  "GenerateTokenPair m w claims =
     (case generateToken m w claims (AccessExpire m) of
        (Inl e, w1) \<Rightarrow> (Inl (ErrGenerateAccessToken e), w1)
      | (Inr accessToken, w1) \<Rightarrow>
          (case generateToken m w1 claims (RefreshExpire m) of
             (Inl e, w2) \<Rightarrow> (Inl (ErrGenerateRefreshToken e), w2)
           | (Inr refreshToken, w2) \<Rightarrow>
               (Inr \<lparr>AccessToken = accessToken, RefreshToken = refreshToken\<rparr>, w2)))"

text \<open>
  \<open>verifyToken\<close>. On a nil error the library has set \<open>Valid\<close>, and the claims
  are the \<open>*Claims\<close> handed to the parser, so the type assertion of the source
  cannot fail and has no branch here.
\<close>

definition verifyToken :: "Options \<Rightarrow> world \<Rightarrow> token \<Rightarrow> (error + Claims) \<times> world" where
  "verifyToken m w tokenString =
     (case ParseWithClaims w tokenString
             (\<lambda>alg. if alg \<noteq> Method m then Inl ErrUnexpectedMethod else Inr (SignKey m)) of
        (Inl e, w1) \<Rightarrow> (Inl (ErrParseToken (JwtError e)), w1)
      | (Inr (valid, claims), w1) \<Rightarrow>
          if \<not> valid then (Inl ErrInvalidToken, w1) else (Inr claims, w1))"

definition VerifyToken :: "Options \<Rightarrow> world \<Rightarrow> token \<Rightarrow> (error + Claims) \<times> world" where
  "VerifyToken m w tokenString = verifyToken m w tokenString"



section \<open>Values, the heap and the request context\<close>

text \<open>
  A value of type \<open>any\<close> stored in a session. \<open>AFunc\<close> stands for the values
  \<open>encoding/json\<close> refuses to marshal (functions, channels). The bytes that
  \<open>json.Marshal\<close> returns are kept symbolically as \<open>JSON v\<close>.
\<close>

datatype any = AString string | AInt int | ABool bool | ANil | AFunc

datatype bytes = JSON any

definition json_Marshal :: "any \<Rightarrow> error + bytes" where
  "json_Marshal v = (if v = AFunc then Inl ErrUnsupportedType else Inr (JSON v))"

text \<open>
  Go maps and \<open>*Session\<close> pointers are references. The heap holds the content of
  every \<open>map[string]any\<close> and of every memory session object by address; \<open>brk\<close>
  is the next free address. A map variable is an \<open>addr option\<close>, \<open>None\<close> the nil
  map. Mutexes are left out: operations run one after the other.
\<close>

type_synonym addr = nat

datatype 'a outcome = Return 'a | Panic string

record memory_Session =
  sess_id :: string
  claims :: Claims
  data :: "addr option"
  expireTime :: time

record heap =
  maps :: "addr \<Rightarrow> (string \<times> any) list"
  objs :: "addr \<Rightarrow> memory_Session"
  brk :: addr

definition make_map :: "heap \<Rightarrow> addr \<times> heap" where
  "make_map h = (brk h, h\<lparr>maps := (maps h)(brk h := []), brk := Suc (brk h)\<rparr>)"

definition new_Session :: "heap \<Rightarrow> memory_Session \<Rightarrow> addr \<times> heap" where
  "new_Session h s = (brk h, h\<lparr>objs := (objs h)(brk h := s), brk := Suc (brk h)\<rparr>)"

text \<open>
  The Redis session, needed here because a request context can hold one. Its
  \<open>client\<close> field is the connection to the one Redis server of the model, which
  is passed to every operation, so the record does not carry it.
\<close>

record redis_Session =
  key :: string
  claims :: Claims
  expiration :: duration

text \<open>
  The part of \<open>gin.Context\<close> the session code uses: the request's headers, the
  response's headers and the per-request \<open>Keys\<close>. A header name stands for its
  canonical form, and a header value is a \<open>token\<close> (any string). Under the session
  key only the Redis provider stores anything, so a value there that implements
  \<open>session.Session\<close> is a Redis session.
\<close>

datatype ctx_value = VSession redis_Session | VOther any

record Context =
  request_header :: "string \<rightharpoonup> token"
  response_header :: "string \<rightharpoonup> token"
  Keys :: "string \<rightharpoonup> ctx_value"

definition CtxSessionKey :: string where
  "CtxSessionKey = ''gint:session''"

definition GetHeader :: "Context \<Rightarrow> string \<Rightarrow> token" where
  "GetHeader ctx k = (case request_header ctx k of None \<Rightarrow> Malformed [] | Some v \<Rightarrow> v)"

text \<open>\<open>gin.Context.Header\<close> deletes the response header when the value is empty.\<close>

definition Header :: "Context \<Rightarrow> string \<Rightarrow> token \<Rightarrow> Context" where
  "Header ctx k v =
     (if v = Malformed [] then ctx\<lparr>response_header := (response_header ctx)(k := None)\<rparr>
      else ctx\<lparr>response_header := (response_header ctx)(k \<mapsto> v)\<rparr>)"

definition ctx_Get :: "Context \<Rightarrow> string \<Rightarrow> ctx_value option" where
  "ctx_Get ctx k = Keys ctx k"

definition ctx_Set :: "Context \<Rightarrow> string \<Rightarrow> ctx_value \<Rightarrow> Context" where
  "ctx_Set ctx k v = ctx\<lparr>Keys := (Keys ctx)(k \<mapsto> v)\<rparr>"

text \<open>The \<open>TokenCarrier\<close> interface, and its header implementation.\<close>

record TokenCarrier =
  Inject :: "Context \<Rightarrow> token \<Rightarrow> Context"
  Extract :: "Context \<Rightarrow> token"
  Clear :: "Context \<Rightarrow> Context"

definition NewCarrierWithHeader :: "string \<Rightarrow> TokenCarrier" where
  "NewCarrierWithHeader headerName =
     \<lparr>Inject = (\<lambda>ctx tok. Header ctx headerName tok),
      Extract = (\<lambda>ctx. GetHeader ctx headerName),
      Clear = (\<lambda>ctx. Header ctx headerName (Malformed []))\<rparr>"

definition NewCarrier :: TokenCarrier where
  "NewCarrier = NewCarrierWithHeader ''Authorization''"


section \<open>Package memory: the session\<close>

text \<open>
  The receiver is the address of the session object. \<open>time.Now().After(t)\<close> is
  \<open>t < now\<close>. Writing to a nil map panics in Go; reading it or deleting from it
  does not.
\<close>

definition memory_Session_Claims :: "heap \<Rightarrow> addr \<Rightarrow> Claims" where
  "memory_Session_Claims h s = memory_Session.claims (objs h s)"

definition memory_Session_Get ::
  "heap \<Rightarrow> world \<Rightarrow> addr \<Rightarrow> string \<Rightarrow> (error + any) \<times> world" where
  "memory_Session_Get h w s k =
     (let (now, w1) = time_Now w in
      if expireTime (objs h s) < now then (Inl ErrSessionExpired, w1)
      else
        (case (case data (objs h s) of None \<Rightarrow> None | Some a \<Rightarrow> map_of (maps h a) k) of
           None \<Rightarrow> (Inl ErrKeyNotFound, w1)
         | Some val \<Rightarrow> (Inr val, w1)))"

definition memory_Session_Set ::
  "heap \<Rightarrow> world \<Rightarrow> addr \<Rightarrow> string \<Rightarrow> any \<Rightarrow> error option outcome \<times> heap \<times> world" where
  "memory_Session_Set h w s k val =
     (let (now, w1) = time_Now w in
      if expireTime (objs h s) < now then (Return (Some ErrSessionExpired), h, w1)
      else
        (case data (objs h s) of
           None \<Rightarrow> (Panic ''assignment to entry in nil map'', h, w1)
         | Some a \<Rightarrow>
             (Return None, h\<lparr>maps := (maps h)(a := AList.update k val (maps h a))\<rparr>, w1)))"

definition memory_Session_Del ::
  "heap \<Rightarrow> world \<Rightarrow> addr \<Rightarrow> string \<Rightarrow> error option \<times> heap \<times> world" where
  "memory_Session_Del h w s k =
     (let (now, w1) = time_Now w in
      if expireTime (objs h s) < now then (Some ErrSessionExpired, h, w1)
      else
        (case data (objs h s) of
           None \<Rightarrow> (None, h, w1)
         | Some a \<Rightarrow> (None, h\<lparr>maps := (maps h)(a := AList.delete k (maps h a))\<rparr>, w1)))"

definition memory_Session_Destroy ::
  "heap \<Rightarrow> world \<Rightarrow> addr \<Rightarrow> error option \<times> heap \<times> world" where
  "memory_Session_Destroy h w s =
     (let (now, w1) = time_Now w in
      (None, h\<lparr>objs := (objs h)(s := (objs h s)\<lparr>expireTime := now + (- Hour)\<rparr>)\<rparr>, w1))"

definition memory_Session_Refresh ::
  "heap \<Rightarrow> world \<Rightarrow> addr \<Rightarrow> error option \<times> heap \<times> world" where
  "memory_Session_Refresh h w s =
     (let (now, w1) = time_Now w in
      if expireTime (objs h s) < now then (Some ErrSessionExpired, h, w1)
      else (None, h, w1))"


section \<open>Package memory: the provider\<close>

text \<open>
  The provider's \<open>sessions\<close> map holds pointers to session objects. The provider is
  itself mutated (its map), so every operation returns the provider it leaves behind.
  The background sweep that \<open>NewProvider\<close> starts is concurrent and not part of
  the model.
\<close>

record memory_Provider =
  jwtManager :: Options
  expiration :: duration
  carrier :: TokenCarrier
  sessions :: "string \<rightharpoonup> addr"

definition memory_NewProvider ::
  "string \<Rightarrow> duration \<Rightarrow> duration \<Rightarrow> TokenCarrier \<Rightarrow> memory_Provider" where
  "memory_NewProvider jwtKey accessExpire refreshExpire tc =
     \<lparr>jwtManager = NewManager (NewOptions jwtKey accessExpire refreshExpire),
      expiration = refreshExpire,
      carrier = tc,
      sessions = Map.empty\<rparr>"

definition newClaims :: "string \<Rightarrow> string \<Rightarrow> (string \<times> string) list option \<Rightarrow> Claims" where
  "newClaims userId sessionId jwtData =
     \<lparr>Issuer = [], ExpiresAt = None, NotBefore = None, IssuedAt = None, ID = [],
      UserId = userId, SSID = sessionId, Data = jwtData\<rparr>"

definition memory_Provider_NewSession ::
  "memory_Provider \<Rightarrow> heap \<Rightarrow> world \<Rightarrow> Context \<Rightarrow> string \<Rightarrow> (string \<times> string) list option \<Rightarrow>
     addr option \<Rightarrow> (error + addr) \<times> memory_Provider \<times> heap \<times> world \<times> Context" where
  "memory_Provider_NewSession p h w ctx userId jwtData sessData =
     (let (sessionId, w1) = uuid_New w;
          cl = newClaims userId sessionId jwtData
      in case GenerateTokenPair (jwtManager p) w1 cl of
           (Inl err, w2) \<Rightarrow> (Inl err, p, h, w2, ctx)
         | (Inr tokenPair, w2) \<Rightarrow>
             (let (now, w3) = time_Now w2;
                  (sess, h1) = new_Session h
                     \<lparr>sess_id = sessionId, claims = cl, data = sessData,
                      expireTime = now + memory_Provider.expiration p\<rparr>;
                  p1 = p\<lparr>sessions := (sessions p)(sessionId \<mapsto> sess)\<rparr>;
                  ctx1 = Inject (carrier p) ctx (AccessToken tokenPair);
                  ctx2 = Header ctx1 ''X-Refresh-Token'' (RefreshToken tokenPair)
              in (Inr sess, p1, h1, w3, ctx2)))"

definition memory_Provider_Get ::
  "memory_Provider \<Rightarrow> heap \<Rightarrow> world \<Rightarrow> Context \<Rightarrow>
     (error + addr) \<times> memory_Provider \<times> heap \<times> world" where
  "memory_Provider_Get p h w ctx =
     (let tok = Extract (carrier p) ctx in
      if tok = Malformed [] then (Inl ErrTokenNotFound, p, h, w)
      else
        (case VerifyToken (jwtManager p) w tok of
           (Inl err, w1) \<Rightarrow> (Inl err, p, h, w1)
         | (Inr cl, w1) \<Rightarrow>
             (case sessions p (SSID cl) of
                None \<Rightarrow> (Inl ErrSessionNotFound, p, h, w1)
              | Some sess \<Rightarrow>
                  (let (now, w2) = time_Now w1 in
                   if expireTime (objs h sess) < now
                   then (Inl ErrSessionExpired,
                         p\<lparr>sessions := (sessions p)(SSID cl := None)\<rparr>, h, w2)
                   else (Inr sess, p,
                         h\<lparr>objs := (objs h)(sess := (objs h sess)
                              \<lparr>expireTime := now + memory_Provider.expiration p\<rparr>)\<rparr>,
                         w2)))))"




section \<open>The Redis server\<close>

text \<open>
  The Redis client is outside the repository. The server is a map from keys to hashes,
  each with an optional instant of expiry; a key whose expiry is not after the clock is
  gone, whether or not it is still stored. Every command is one round trip, which can
  fail: the \<open>n\<close>-th round trip fails when \<open>fault r n\<close> holds, and then changes
  nothing. The server and the program share the clock of the \<open>world\<close>; a command
  does not advance it.
\<close>

record redis_entry =
  hash :: "(string \<times> bytes) list"
  expireAt :: "time option"

record redis =
  db :: "string \<rightharpoonup> redis_entry"
  fault :: "nat \<Rightarrow> bool"
  calls :: nat

definition round_trip :: "redis \<Rightarrow> bool \<times> redis" where
  "round_trip r = (fault r (calls r), r\<lparr>calls := Suc (calls r)\<rparr>)"

definition live :: "redis \<Rightarrow> time \<Rightarrow> string \<Rightarrow> redis_entry option" where
  "live r now k =
     (case db r k of
        None \<Rightarrow> None
      | Some e \<Rightarrow>
          (case expireAt e of
             None \<Rightarrow> Some e
           | Some x \<Rightarrow> if x \<le> now then None else Some e))"

text \<open>
  The client sends \<open>EXPIRE\<close> in whole seconds: a positive duration below a second
  counts as one second, any other is divided by a second, rounding towards zero. The
  server deletes the key when the number is not positive.
\<close>

definition formatSec :: "duration \<Rightarrow> int" where
  "formatSec dur =
     (if 0 < dur \<and> dur < Second then 1
      else if dur < 0 then - ((- dur) div Second)
      else dur div Second)"

definition hset :: "redis \<Rightarrow> time \<Rightarrow> string \<Rightarrow> string \<Rightarrow> bytes \<Rightarrow> redis" where
  "hset r now k f v =
     (let e = (case live r now k of None \<Rightarrow> \<lparr>hash = [], expireAt = None\<rparr> | Some e \<Rightarrow> e)
      in r\<lparr>db := (db r)(k \<mapsto> e\<lparr>hash := AList.update f v (hash e)\<rparr>)\<rparr>)"

definition expire :: "redis \<Rightarrow> time \<Rightarrow> string \<Rightarrow> duration \<Rightarrow> redis" where
  "expire r now k dur =
     (case live r now k of
        None \<Rightarrow> r
      | Some e \<Rightarrow>
          if formatSec dur \<le> 0 then r\<lparr>db := (db r)(k := None)\<rparr>
          else r\<lparr>db := (db r)(k \<mapsto> e\<lparr>expireAt := Some (now + formatSec dur * Second)\<rparr>)\<rparr>)"

definition redis_Exists :: "redis \<Rightarrow> world \<Rightarrow> string \<Rightarrow> (error + int) \<times> redis" where
  "redis_Exists r w k =
     (let (failed, r1) = round_trip r in
      if failed then (Inl ErrRedisIO, r1)
      else (Inr (if live r1 (clock w) k = None then 0 else 1), r1))"


definition redis_Expire :: "redis \<Rightarrow> world \<Rightarrow> string \<Rightarrow> duration \<Rightarrow> error option \<times> redis" where
  "redis_Expire r w k dur =
     (let (failed, r1) = round_trip r in
      if failed then (Some ErrRedisIO, r1)
      else (None, expire r1 (clock w) k dur))"


text \<open>
  A pipeline of \<open>HSET\<close> commands followed by one \<open>EXPIRE\<close>, sent in one round
  trip.
\<close>

fun hset_all :: "redis \<Rightarrow> time \<Rightarrow> string \<Rightarrow> (string \<times> bytes) list \<Rightarrow> redis" where
  "hset_all r now k [] = r"
| "hset_all r now k ((f, v) # fvs) = hset_all (hset r now k f v) now k fvs"

definition redis_Pipeline_Exec ::
  "redis \<Rightarrow> world \<Rightarrow> string \<Rightarrow> (string \<times> bytes) list \<Rightarrow> duration \<Rightarrow> error option \<times> redis" where
  "redis_Pipeline_Exec r w k fvs dur =
     (let (failed, r1) = round_trip r in
      if failed then (Some ErrRedisIO, r1)
      else (None, expire (hset_all r1 (clock w) k fvs) (clock w) k dur))"


section \<open>Package redis: the session\<close>

definition sessionKey :: "string \<Rightarrow> string" where
  "sessionKey ssid = ''gint:session:'' @ ssid"

definition newSession :: "string \<Rightarrow> duration \<Rightarrow> Claims \<Rightarrow> redis_Session" where
  "newSession ssid exp cl = \<lparr>key = sessionKey ssid, claims = cl, expiration = exp\<rparr>"

definition redis_Session_Claims :: "redis_Session \<Rightarrow> Claims" where
  "redis_Session_Claims s = redis_Session.claims s"



definition redis_Session_Refresh :: "redis \<Rightarrow> world \<Rightarrow> redis_Session \<Rightarrow> error option \<times> redis" where
  "redis_Session_Refresh r w s = redis_Expire r w (key s) (redis_Session.expiration s)"

text \<open>
  \<open>init\<close> marshals every value of the map, stopping at the first that fails, queues
  one \<open>HSET\<close> for each entry and one \<open>EXPIRE\<close>, and sends the pipeline. It does
  nothing for a nil or empty map.
\<close>

fun marshal_all :: "(string \<times> any) list \<Rightarrow> error + (string \<times> bytes) list" where
  "marshal_all [] = Inr []"
| "marshal_all ((k, v) # kvs) =
     (case json_Marshal v of
        Inl err \<Rightarrow> Inl (ErrMarshal err)
      | Inr jsonData \<Rightarrow>
          (case marshal_all kvs of
             Inl err \<Rightarrow> Inl err
           | Inr rest \<Rightarrow> Inr ((k, jsonData) # rest)))"

definition redis_Session_init ::
  "redis \<Rightarrow> world \<Rightarrow> heap \<Rightarrow> redis_Session \<Rightarrow> addr option \<Rightarrow> error option \<times> redis" where
  "redis_Session_init r w h s dat =
     (let m = (case dat of None \<Rightarrow> [] | Some a \<Rightarrow> maps h a) in
      if length m = 0 then (None, r)
      else
        (case marshal_all m of
           Inl err \<Rightarrow> (Some err, r)
         | Inr fvs \<Rightarrow> redis_Pipeline_Exec r w (key s) fvs (redis_Session.expiration s)))"


section \<open>Package redis: the provider\<close>

record redis_Provider =
  jwtManager :: Options
  tokenCarrier :: TokenCarrier
  expiration :: duration

definition redis_NewProvider ::
  "string \<Rightarrow> duration \<Rightarrow> duration \<Rightarrow> TokenCarrier \<Rightarrow> redis_Provider" where
  "redis_NewProvider jwtKey accessExpire refreshExpire tc =
     \<lparr>jwtManager = NewManager (NewOptions jwtKey accessExpire refreshExpire),
      tokenCarrier = tc,
      expiration = refreshExpire\<rparr>"

text \<open>
  \<open>NewSession\<close> writes \<open>user_id\<close> and \<open>created_at\<close> into the map it was given,
  or into a new map when it was given nil. \<open>time.Now().Unix()\<close> is the clock in
  whole seconds.
\<close>

definition redis_Provider_NewSession ::
  "redis_Provider \<Rightarrow> redis \<Rightarrow> heap \<Rightarrow> world \<Rightarrow> Context \<Rightarrow> string \<Rightarrow>
     (string \<times> string) list option \<Rightarrow> addr option \<Rightarrow>
     (error + redis_Session) \<times> redis \<times> heap \<times> world \<times> Context" where
  "redis_Provider_NewSession p r h w ctx userId jwtData sessData =
     (let (ssid, w1) = uuid_New w;
          cl = newClaims userId ssid jwtData
      in case GenerateTokenPair (redis_Provider.jwtManager p) w1 cl of
           (Inl err, w2) \<Rightarrow> (Inl (ErrGenerateToken err), r, h, w2, ctx)
         | (Inr tokenPair, w2) \<Rightarrow>
             (let ctx1 = Inject (tokenCarrier p) ctx (AccessToken tokenPair);
                  ctx2 = Header ctx1 ''X-Refresh-Token'' (RefreshToken tokenPair);
                  sess = newSession ssid (redis_Provider.expiration p) cl;
                  (a, h1) = (case sessData of None \<Rightarrow> make_map h | Some a \<Rightarrow> (a, h));
                  h2 = h1\<lparr>maps := (maps h1)
                          (a := AList.update ''user_id'' (AString userId) (maps h1 a))\<rparr>;
                  (now, w3) = time_Now w2;
                  h3 = h2\<lparr>maps := (maps h2)
                          (a := AList.update ''created_at'' (AInt (now div Second)) (maps h2 a))\<rparr>
              in case redis_Session_init r w3 h3 sess (Some a) of
                   (Some err, r1) \<Rightarrow> (Inl (ErrInitSession err), r1, h3, w3, ctx2)
                 | (None, r1) \<Rightarrow> (Inr sess, r1, h3, w3, ctx2)))"

definition redis_Provider_Get ::
  "redis_Provider \<Rightarrow> redis \<Rightarrow> world \<Rightarrow> Context \<Rightarrow>
     (error + redis_Session) \<times> redis \<times> world \<times> Context" where
  "redis_Provider_Get p r w ctx =
     (case ctx_Get ctx CtxSessionKey of
        Some (VSession sess) \<Rightarrow> (Inr sess, r, w, ctx)
      | _ \<Rightarrow>
          (let tok = Extract (tokenCarrier p) ctx in
           if tok = Malformed [] then (Inl ErrNoToken, r, w, ctx)
           else
             (case VerifyToken (redis_Provider.jwtManager p) w tok of
                (Inl err, w1) \<Rightarrow> (Inl (ErrVerifyToken err), r, w1, ctx)
              | (Inr cl, w1) \<Rightarrow>
                  (let sess = newSession (SSID cl) (redis_Provider.expiration p) cl in
                   case redis_Exists r w1 (sessionKey (SSID cl)) of
                     (Inl err, r1) \<Rightarrow> (Inl (ErrCheckSession err), r1, w1, ctx)
                   | (Inr n, r1) \<Rightarrow>
                       if n = 0 then (Inl ErrSessionGone, r1, w1, ctx)
                       else (Inr sess, r1, w1, ctx_Set ctx CtxSessionKey (VSession sess))))))"




section \<open>Package session: the default provider\<close>

text \<open>
  The package keeps one provider in an atomic value, \<open>None\<close> while nothing has
  been stored in it; \<open>getDefaultProvider\<close> panics on the empty value.
\<close>

definition getDefaultProvider :: "'p option \<Rightarrow> 'p outcome" where
  "getDefaultProvider defaultProvider =
     (case defaultProvider of
        None \<Rightarrow> Panic ''session provider not initialised, call SetDefaultProvider first''
      | Some p \<Rightarrow> Return p)"


section \<open>Example inputs\<close>

text \<open>
  Concrete inputs on which the theorems below are run: a clock at 5.5 seconds that moves
  one nanosecond at every read, a manager with a two-second access and a ten-second
  refresh lifetime, and a claim set.
\<close>

definition W0 :: world where
  "W0 = \<lparr>clock = 5500000000, tick = (\<lambda>n. 1), reads = 0,
         uuid_src = (\<lambda>n. if n = 0 then ''a'' else if n = 1 then ''b'' else ''c''), draws = 0\<rparr>"

definition C0 :: Claims where
  "C0 = newClaims ''u1'' ''s1'' None"

definition M0 :: Options where
  "M0 = NewManager (NewOptions ''k'' (2 * Second) (10 * Second))"

text \<open>
  The token that manager \<open>M0\<close> issues for \<open>C0\<close> at 5.5 s with the access
  lifetime, its claim set, and the handle of the Redis session of these claims.
\<close>

definition CL0 :: Claims where
  "CL0 = C0\<lparr>Issuer := ''gint'', ExpiresAt := Some 7000000000, IssuedAt := Some 5000000000,
            NotBefore := Some 5000000000, ID := ''a''\<rparr>"

definition TOK0 :: token where
  "TOK0 = JWS HS256 ''k'' CL0"

definition RS0 :: redis_Session where
  "RS0 = newSession ''s1'' (10 * Second) CL0"

text \<open>
  A second clock, one nanosecond before a full second, so that two reads in a row fall
  into different seconds.
\<close>

definition W1 :: world where
  "W1 = W0\<lparr>clock := 5999999999\<rparr>"

text \<open>
  An empty request context; a heap with a live session at address 0 (it expires at 12 s),
  an expired one at address 2 (it expired at 1 s) and their data map at address 1; a
  memory provider; a Redis server holding the record of session \<open>s1\<close>, to expire at
  12 s, and the handle of that session.
\<close>

definition CTX0 :: Context where
  "CTX0 = \<lparr>request_header = Map.empty, response_header = Map.empty, Keys = Map.empty\<rparr>"

definition H0 :: heap where
  "H0 = \<lparr>maps = (\<lambda>a. [(''login_ip'', AString ''127.0.0.1'')]),
         objs = (\<lambda>a. \<lparr>sess_id = ''s1'', claims = C0, data = Some 1,
                       expireTime = (if a = 0 then 12000000000 else 1000000000)\<rparr>),
         brk = 3\<rparr>"

definition P0 :: memory_Provider where
  "P0 = memory_NewProvider ''k'' (2 * Second) (10 * Second) NewCarrier"

definition R0 :: redis where
  "R0 = \<lparr>db = [sessionKey ''s1'' \<mapsto>
                 \<lparr>hash = [(''user_id'', JSON (AString ''u1''))], expireAt = Some 12000000000\<rparr>],
         fault = (\<lambda>n. False), calls = 0\<rparr>"


text \<open>
  A request that carries \<open>TOK0\<close> in the header of the default carrier, a request
  with no token in whose \<open>Keys\<close> a session is cached, the memory provider with
  the session of \<open>s1\<close> at address 0, and a Redis provider.
\<close>

definition CTX1 :: Context where
  "CTX1 = CTX0\<lparr>request_header := [''Authorization'' \<mapsto> TOK0]\<rparr>"

definition CTX2 :: Context where
  "CTX2 = CTX0\<lparr>Keys := [CtxSessionKey \<mapsto> VSession RS0]\<rparr>"

definition P1 :: memory_Provider where
  "P1 = P0\<lparr>sessions := [''s1'' \<mapsto> 0]\<rparr>"

definition Q0 :: redis_Provider where
  "Q0 = redis_NewProvider ''k'' (2 * Second) (10 * Second) NewCarrier"


definition H1 :: heap where
  "H1 = H0\<lparr>maps := (maps H0)(1 := [(''user_id'', AString ''guest''), (''theme'', AString ''dark'')])\<rparr>"


text \<open>
  A clock at 8 s, when \<open>TOK0\<close> has expired; a request that carries \<open>TOK0\<close>
  and has a session cached in its \<open>Keys\<close>; the refresh token that \<open>M0\<close>
  issues together with \<open>TOK0\<close>; and the memory provider with a carrier that uses
  the header \<open>X-Refresh-Token\<close> itself.
\<close>

definition W2 :: world where
  "W2 = W0\<lparr>clock := 8000000000\<rparr>"

definition CTX4 :: Context where
  "CTX4 = CTX1\<lparr>Keys := [CtxSessionKey \<mapsto> VSession RS0]\<rparr>"




section \<open>Issuing and verifying tokens\<close>

lemma generateToken_Inr:
  assumes "generateToken m w c ttl = (Inr tok, w1)"
  shows "tok = JWS (Method m) (SignKey m)
            (c\<lparr>Issuer := Options.Issuer m,
               ExpiresAt := Some (NewNumericDate (clock w + ttl)),
               IssuedAt := Some (NewNumericDate (clock w)),
               NotBefore := Some (NewNumericDate (clock w)),
               ID := uuid_src w (draws w)\<rparr>)"
    and "Method m \<noteq> RS256"
    and "w1 = w\<lparr>clock := clock w + int (tick w (reads w)), reads := Suc (reads w), draws := Suc (draws w)\<rparr>"
  using assms
  by (auto simp: generateToken_def time_Now_def uuid_New_def SignedString_def Let_def split: if_splits)

lemma generateToken_HMAC:
  assumes "Method m \<noteq> RS256"
  shows "generateToken m w c ttl =
      (Inr (JWS (Method m) (SignKey m)
            (c\<lparr>Issuer := Options.Issuer m,
               ExpiresAt := Some (NewNumericDate (clock w + ttl)),
               IssuedAt := Some (NewNumericDate (clock w)),
               NotBefore := Some (NewNumericDate (clock w)),
               ID := uuid_src w (draws w)\<rparr>)),
       w\<lparr>clock := clock w + int (tick w (reads w)), reads := Suc (reads w), draws := Suc (draws w)\<rparr>)"
  using assms
  by (simp add: generateToken_def time_Now_def uuid_New_def SignedString_def Let_def)

lemma NewNumericDate_le: "NewNumericDate t \<le> t"
  by (simp add: NewNumericDate_def Second_def)

lemma NewNumericDate_mono: "s \<le> t \<Longrightarrow> NewNumericDate s \<le> NewNumericDate t"
  by (simp add: NewNumericDate_def Second_def zdiv_mono1)

lemma NewNumericDate_gt:
  assumes "Second \<le> d"
  shows "t < NewNumericDate (t + d)"
proof -
  have "(t + d) mod Second < Second" by (simp add: Second_def)
  moreover have "NewNumericDate (t + d) = (t + d) - (t + d) mod Second"
    by (simp add: NewNumericDate_def minus_mod_eq_div_mult)
  ultimately show ?thesis using assms by linarith
qed

lemma NewNumericDate_add:
  assumes "d mod Second = 0"
  shows "NewNumericDate (t + d) = NewNumericDate t + d"
proof -
  from assms obtain k where "d = k * Second"
    by (metis dvd_div_mult_self mod_eq_0_iff_dvd)
  then show ?thesis
    by (simp add: NewNumericDate_def Second_def distrib_right)
qed

lemma verifyToken_JWS:
  assumes "alg = Method m" and "alg \<noteq> RS256" and "k = SignKey m"
  shows "verifyToken m wv (JWS alg k c) =
      (if Validate (clock wv) c = [] then Inr c
       else Inl (ErrParseToken (JwtError (ErrTokenInvalidClaims (Validate (clock wv) c)))),
       snd (time_Now wv))"
  using assms
  by (simp add: verifyToken_def ParseWithClaims_def time_Now_def Let_def)

lemma verifyToken_Inr:
  assumes "verifyToken m w tok = (Inr cl, w1)"
  shows "tok = JWS (Method m) (SignKey m) cl" and "Method m \<noteq> RS256"
    and "Validate (clock w) cl = []" and "w1 = snd (time_Now w)"
  using assms
  by (auto simp: verifyToken_def ParseWithClaims_def time_Now_def Let_def
           split: token.splits if_splits sum.splits)

lemma M0_simps: "Method M0 = HS256" "SignKey M0 = ''k''" "Options.Issuer M0 = ''gint''"
  "AccessExpire M0 = 2 * Second" "RefreshExpire M0 = 10 * Second"
  by (simp_all add: M0_def NewManager_def NewOptions_def)

lemma W0_simps: "clock W0 = 5500000000" "reads W0 = 0" "draws W0 = 0" "tick W0 n = 1"
  "uuid_src W0 0 = ''a''" "uuid_src W0 (Suc 0) = ''b''"
  by (simp_all add: W0_def)

text \<open>
  Claim C1, as the code has it. A token issued with a lifetime of at least one second
  verifies, with the same manager, at the instant of issue and at every later instant
  before its stamped expires-at, and the claim set that comes back has the UserId, SSID
  and Data of the one that went in; only the registered fields are stamped. The stamped
  expires-at is the instant of issue plus the lifetime, cut down to whole seconds, and
  from that instant on verification fails with the expiry error. When the lifetime is a
  whole number of seconds, expires-at is issued-at plus the lifetime.
\<close>

theorem verify_after_issue:
  assumes gen: "generateToken m w c ttl = (Inr tok, w1)" and ttl: "Second \<le> ttl"
  shows "\<exists>c'. UserId c' = UserId c \<and> SSID c' = SSID c \<and> Data c' = Data c
           \<and> IssuedAt c' = Some (NewNumericDate (clock w))
           \<and> ExpiresAt c' = Some (NewNumericDate (clock w + ttl))
           \<and> (\<forall>wv. clock wv = clock w \<longrightarrow> fst (verifyToken m wv tok) = Inr c')
           \<and> (\<forall>wv. clock w \<le> clock wv \<and> clock wv < NewNumericDate (clock w + ttl)
                  \<longrightarrow> fst (verifyToken m wv tok) = Inr c')
           \<and> (\<forall>wv. NewNumericDate (clock w + ttl) \<le> clock wv
                  \<longrightarrow> fst (verifyToken m wv tok) =
                      Inl (ErrParseToken (JwtError (ErrTokenInvalidClaims [ErrTokenExpired]))))
           \<and> (ttl mod Second = 0
                  \<longrightarrow> NewNumericDate (clock w + ttl) = NewNumericDate (clock w) + ttl)"
proof -
  let ?c = "c\<lparr>Issuer := Options.Issuer m,
               ExpiresAt := Some (NewNumericDate (clock w + ttl)),
               IssuedAt := Some (NewNumericDate (clock w)),
               NotBefore := Some (NewNumericDate (clock w)),
               ID := uuid_src w (draws w)\<rparr>"
  from gen have tok: "tok = JWS (Method m) (SignKey m) ?c" and hmac: "Method m \<noteq> RS256"
    by (rule generateToken_Inr)+
  have nbf: "NewNumericDate (clock w) \<le> clock w" by (rule NewNumericDate_le)
  have now: "clock w < NewNumericDate (clock w + ttl)" using ttl by (rule NewNumericDate_gt)
  have ok: "fst (verifyToken m wv tok) = Inr ?c"
    if "clock w \<le> clock wv" "clock wv < NewNumericDate (clock w + ttl)" for wv
    using that nbf by (simp add: tok verifyToken_JWS [OF refl hmac refl] Validate_def)
  have expired: "fst (verifyToken m wv tok) =
      Inl (ErrParseToken (JwtError (ErrTokenInvalidClaims [ErrTokenExpired])))"
    if "NewNumericDate (clock w + ttl) \<le> clock wv" for wv
    using that nbf now by (simp add: tok verifyToken_JWS [OF refl hmac refl] Validate_def)
  have whole: "NewNumericDate (clock w + ttl) = NewNumericDate (clock w) + ttl"
    if "ttl mod Second = 0" using that by (rule NewNumericDate_add)
  show ?thesis
    apply (rule exI [of _ ?c])
    using ok expired whole now by simp
qed

theorem verify_after_issue_witness:
  "\<exists>tok c'. fst (generateToken M0 W0 C0 (2 * Second)) = Inr tok
      \<and> fst (verifyToken M0 W0 tok) = Inr c' \<and> UserId c' = ''u1'' \<and> SSID c' = ''s1''
      \<and> fst (verifyToken M0 (W0\<lparr>clock := 7000000000\<rparr>) tok) =
          Inl (ErrParseToken (JwtError (ErrTokenInvalidClaims [ErrTokenExpired])))"
proof -
  obtain tok w1 where gen: "generateToken M0 W0 C0 (2 * Second) = (Inr tok, w1)"
    by (simp add: generateToken_HMAC M0_simps)
  have ttl: "Second \<le> 2 * Second" by (simp add: Second_def)
  have late: "NewNumericDate (clock W0 + 2 * Second) \<le> clock (W0\<lparr>clock := 7000000000\<rparr>)"
    by (simp add: NewNumericDate_def Second_def W0_simps)
  from verify_after_issue [OF gen ttl] obtain c' where
    u: "UserId c' = UserId C0" and s: "SSID c' = SSID C0"
    and imm: "\<forall>wv. clock wv = clock W0 \<longrightarrow> fst (verifyToken M0 wv tok) = Inr c'"
    and ex: "\<forall>wv. NewNumericDate (clock W0 + 2 * Second) \<le> clock wv
                  \<longrightarrow> fst (verifyToken M0 wv tok) =
                      Inl (ErrParseToken (JwtError (ErrTokenInvalidClaims [ErrTokenExpired])))"
    by blast
  have 1: "fst (generateToken M0 W0 C0 (2 * Second)) = Inr tok" using gen by simp
  have 2: "fst (verifyToken M0 W0 tok) = Inr c'" using imm by blast
  have 3: "UserId c' = ''u1''" "SSID c' = ''s1''" using u s by (simp_all add: C0_def newClaims_def)
  have 4: "fst (verifyToken M0 (W0\<lparr>clock := 7000000000\<rparr>) tok) =
          Inl (ErrParseToken (JwtError (ErrTokenInvalidClaims [ErrTokenExpired])))"
    using ex late by blast
  from 1 2 3 4 show ?thesis by blast
qed

text \<open>
  Claim C1 as stated fails for a lifetime below one second: the token issued at 5.5 s with
  a lifetime of 0.4 s is stamped to expire at 5 s, and is expired at the instant of issue.
\<close>

theorem short_ttl_expired_at_once:
  "0 < (400000000 :: duration)
   \<and> (\<exists>tok. fst (generateToken M0 W0 C0 400000000) = Inr tok
        \<and> fst (verifyToken M0 W0 tok) =
            Inl (ErrParseToken (JwtError (ErrTokenInvalidClaims [ErrTokenExpired]))))"
  by (simp add: generateToken_HMAC verifyToken_JWS M0_simps W0_simps Validate_def
        NewNumericDate_def Second_def C0_def newClaims_def)


lemma GenerateTokenPair_Inr:
  assumes "GenerateTokenPair m w c = (Inr tp, w')"
  shows "AccessToken tp = JWS (Method m) (SignKey m)
            (c\<lparr>Issuer := Options.Issuer m,
               ExpiresAt := Some (NewNumericDate (clock w + AccessExpire m)),
               IssuedAt := Some (NewNumericDate (clock w)),
               NotBefore := Some (NewNumericDate (clock w)),
               ID := uuid_src w (draws w)\<rparr>)"
    and "RefreshToken tp = JWS (Method m) (SignKey m)
            (c\<lparr>Issuer := Options.Issuer m,
               ExpiresAt := Some (NewNumericDate (clock w + int (tick w (reads w)) + RefreshExpire m)),
               IssuedAt := Some (NewNumericDate (clock w + int (tick w (reads w)))),
               NotBefore := Some (NewNumericDate (clock w + int (tick w (reads w)))),
               ID := uuid_src w (Suc (draws w))\<rparr>)"
    and "Method m \<noteq> RS256"
    and "clock w' = clock w + int (tick w (reads w)) + int (tick w (Suc (reads w)))"
    and "reads w' = Suc (Suc (reads w))" and "draws w' = Suc (Suc (draws w))"
    and "tick w' = tick w" and "uuid_src w' = uuid_src w"
proof -
  from assms obtain a w1 where g1: "generateToken m w c (AccessExpire m) = (Inr a, w1)"
    by (auto simp: GenerateTokenPair_def split: prod.splits sum.splits)
  from assms g1 obtain r where g2: "generateToken m w1 c (RefreshExpire m) = (Inr r, w')"
    and tp: "tp = \<lparr>AccessToken = a, RefreshToken = r\<rparr>"
    by (auto simp: GenerateTokenPair_def split: prod.splits sum.splits)
  note 1 = generateToken_Inr [OF g1] and 2 = generateToken_Inr [OF g2]
  show "AccessToken tp = JWS (Method m) (SignKey m)
            (c\<lparr>Issuer := Options.Issuer m,
               ExpiresAt := Some (NewNumericDate (clock w + AccessExpire m)),
               IssuedAt := Some (NewNumericDate (clock w)),
               NotBefore := Some (NewNumericDate (clock w)),
               ID := uuid_src w (draws w)\<rparr>)"
    using 1(1) tp by simp
  show "RefreshToken tp = JWS (Method m) (SignKey m)
            (c\<lparr>Issuer := Options.Issuer m,
               ExpiresAt := Some (NewNumericDate (clock w + int (tick w (reads w)) + RefreshExpire m)),
               IssuedAt := Some (NewNumericDate (clock w + int (tick w (reads w)))),
               NotBefore := Some (NewNumericDate (clock w + int (tick w (reads w)))),
               ID := uuid_src w (Suc (draws w))\<rparr>)"
    using 2(1) 1(3) tp by simp
  show "Method m \<noteq> RS256" by (rule 1(2))
  show "clock w' = clock w + int (tick w (reads w)) + int (tick w (Suc (reads w)))"
    using 1(3) 2(3) by simp
  show "reads w' = Suc (Suc (reads w))" using 1(3) 2(3) by simp
  show "draws w' = Suc (Suc (draws w))" using 1(3) 2(3) by simp
  show "tick w' = tick w" using 1(3) 2(3) by simp
  show "uuid_src w' = uuid_src w" using 1(3) 2(3) by simp
qed

lemma GenerateTokenPair_HMAC:
  assumes "Method m \<noteq> RS256"
  shows "\<exists>tp w'. GenerateTokenPair m w c = (Inr tp, w')"
  using assms by (simp add: GenerateTokenPair_def generateToken_HMAC)

text \<open>
  Claim C8, as the code has it. The access token and the refresh token of one
  \<open>GenerateTokenPair\<close> call embed the same subject id, session id, data map and
  issuer. Each token is stamped on its own: it has its own token id, the next one drawn,
  and its issued-at and not-before are the second in which that token was generated, its
  expires-at the instant of its generation plus its own lifetime, in whole seconds.
\<close>

theorem token_pair_claims:
  assumes "GenerateTokenPair m w c = (Inr tp, w')"
  shows "\<exists>ca cr t2.
           AccessToken tp = JWS (Method m) (SignKey m) ca
         \<and> RefreshToken tp = JWS (Method m) (SignKey m) cr
         \<and> t2 = clock w + int (tick w (reads w))
         \<and> UserId ca = UserId c \<and> UserId cr = UserId c
         \<and> SSID ca = SSID c \<and> SSID cr = SSID c
         \<and> Data ca = Data c \<and> Data cr = Data c
         \<and> Issuer ca = Options.Issuer m \<and> Issuer cr = Options.Issuer m
         \<and> ID ca = uuid_src w (draws w) \<and> ID cr = uuid_src w (Suc (draws w))
         \<and> IssuedAt ca = Some (NewNumericDate (clock w))
         \<and> NotBefore ca = Some (NewNumericDate (clock w))
         \<and> ExpiresAt ca = Some (NewNumericDate (clock w + AccessExpire m))
         \<and> IssuedAt cr = Some (NewNumericDate t2)
         \<and> NotBefore cr = Some (NewNumericDate t2)
         \<and> ExpiresAt cr = Some (NewNumericDate (t2 + RefreshExpire m))"
  using GenerateTokenPair_Inr(1,2) [OF assms] by simp

theorem token_pair_claims_witness:
  "\<exists>tp ca cr. fst (GenerateTokenPair M0 W0 C0) = Inr tp
      \<and> AccessToken tp = JWS HS256 ''k'' ca \<and> RefreshToken tp = JWS HS256 ''k'' cr
      \<and> UserId ca = ''u1'' \<and> UserId cr = ''u1'' \<and> ID ca = ''a'' \<and> ID cr = ''b''
      \<and> ExpiresAt ca = Some 7000000000 \<and> ExpiresAt cr = Some 15000000000"
proof -
  obtain tp w' where gen: "GenerateTokenPair M0 W0 C0 = (Inr tp, w')"
    using GenerateTokenPair_HMAC [of M0 W0 C0] by (auto simp: M0_simps)
  from token_pair_claims [OF gen] obtain ca cr where
    "AccessToken tp = JWS (Method M0) (SignKey M0) ca"
    "RefreshToken tp = JWS (Method M0) (SignKey M0) cr"
    "UserId ca = UserId C0" "UserId cr = UserId C0"
    "ID ca = uuid_src W0 (draws W0)" "ID cr = uuid_src W0 (Suc (draws W0))"
    "ExpiresAt ca = Some (NewNumericDate (clock W0 + AccessExpire M0))"
    "ExpiresAt cr = Some (NewNumericDate (clock W0 + int (tick W0 (reads W0)) + RefreshExpire M0))"
    by blast
  then have "AccessToken tp = JWS HS256 ''k'' ca \<and> RefreshToken tp = JWS HS256 ''k'' cr
      \<and> UserId ca = ''u1'' \<and> UserId cr = ''u1'' \<and> ID ca = ''a'' \<and> ID cr = ''b''
      \<and> ExpiresAt ca = Some 7000000000 \<and> ExpiresAt cr = Some 15000000000"
    by (simp add: M0_simps W0_simps C0_def newClaims_def NewNumericDate_def Second_def)
  moreover have "fst (GenerateTokenPair M0 W0 C0) = Inr tp" using gen by simp
  ultimately show ?thesis by blast
qed

text \<open>
  Claim C8 as stated fails: the two tokens of one pair have different token ids, and
  when the clock passes a full second between the two stamps, different issued-at and
  not-before.
\<close>

theorem token_pair_ids_differ:
  "\<exists>tp ca cr. fst (GenerateTokenPair M0 W1 C0) = Inr tp
      \<and> AccessToken tp = JWS HS256 ''k'' ca \<and> RefreshToken tp = JWS HS256 ''k'' cr
      \<and> ID ca \<noteq> ID cr \<and> IssuedAt ca \<noteq> IssuedAt cr \<and> NotBefore ca \<noteq> NotBefore cr"
  by (simp add: GenerateTokenPair_def generateToken_HMAC M0_simps W0_def W1_def C0_def
        newClaims_def NewNumericDate_def Second_def)


section \<open>The memory session\<close>

text \<open>
  Claim C7, as the code has it. On an expired record \<open>Get\<close>, \<open>Set\<close>, \<open>Del\<close>
  and \<open>Refresh\<close> fail with the expired error and leave the heap, so the data map
  too, as it was. \<open>Destroy\<close> has no such check: it succeeds, leaves the data map
  as it was and sets the expiry to one hour before now.
\<close>

theorem expired_session_operations:
  assumes "expireTime (objs h s) < clock w"
  shows "memory_Session_Get h w s k = (Inl ErrSessionExpired, snd (time_Now w))
       \<and> memory_Session_Set h w s k v = (Return (Some ErrSessionExpired), h, snd (time_Now w))
       \<and> memory_Session_Del h w s k = (Some ErrSessionExpired, h, snd (time_Now w))
       \<and> memory_Session_Refresh h w s = (Some ErrSessionExpired, h, snd (time_Now w))
       \<and> (\<exists>h'. memory_Session_Destroy h w s = (None, h', snd (time_Now w))
              \<and> maps h' = maps h \<and> data (objs h' s) = data (objs h s)
              \<and> expireTime (objs h' s) = clock w - Hour)"
  using assms
  by (simp add: memory_Session_Get_def memory_Session_Set_def memory_Session_Del_def
        memory_Session_Refresh_def memory_Session_Destroy_def time_Now_def)

lemma H0_dead: "expireTime (objs H0 2) < clock W0"
  by (simp add: H0_def W0_def)

theorem expired_session_operations_witness:
  "expireTime (objs H0 2) < clock W0
   \<and> fst (memory_Session_Get H0 W0 2 ''login_ip'') = Inl ErrSessionExpired
   \<and> fst (memory_Session_Set H0 W0 2 ''login_ip'' ANil) = Return (Some ErrSessionExpired)
   \<and> fst (memory_Session_Del H0 W0 2 ''login_ip'') = Some ErrSessionExpired
   \<and> fst (memory_Session_Refresh H0 W0 2) = Some ErrSessionExpired"
  using expired_session_operations [OF H0_dead, of "''login_ip''" ANil] H0_dead
  by simp

text \<open>
  Claim C7 as stated fails for \<open>Destroy\<close>: on an expired record it returns no
  error.
\<close>

theorem destroy_expired_succeeds:
  "expireTime (objs H0 2) < clock W0 \<and> fst (memory_Session_Destroy H0 W0 2) = None"
  by (simp add: memory_Session_Destroy_def time_Now_def H0_def W0_def)

text \<open>
  Claim C9: no operation panics on any input of the caller. The memory provider stores
  the caller's \<open>sessData\<close> as it is, so after \<open>NewSession\<close> with a nil
  \<open>sessData\<close> the first \<open>Set\<close> on the session writes to a nil map and
  panics. The Redis provider replaces a nil \<open>sessData\<close> by a new map.
\<close>

theorem set_after_NewSession_nil_panics:
  "(case memory_Provider_NewSession P0 H0 W0 CTX0 ''u1'' None None of
      (Inr sess, p1, h1, w1, ctx1) \<Rightarrow>
         fst (memory_Session_Set h1 w1 sess ''k'' (AString ''v'')) =
           Panic ''assignment to entry in nil map''
    | (Inl err, p1, h1, w1, ctx1) \<Rightarrow> False)"
  by (simp add: memory_Provider_NewSession_def P0_def memory_NewProvider_def NewManager_def
        NewOptions_def GenerateTokenPair_def generateToken_HMAC uuid_New_def time_Now_def
        new_Session_def memory_Session_Set_def W0_def H0_def Second_def Let_def)


section \<open>Refreshing a session\<close>


text \<open>
  Claim C4: \<open>Refresh\<close> of a live session re-applies the configured expiry from the
  current time, on either backend. The Redis session sends \<open>EXPIRE\<close> with its
  duration. The memory session, whose \<open>Refresh\<close> is documented to refresh the
  expiry, only checks that the session has not expired and returns: the live session at
  address 0, which expires at 12 s, still expires at 12 s after \<open>Refresh\<close> at 5.5 s,
  and not at 15.5 s, which is the clock plus the provider's duration of 10 s.
\<close>

theorem memory_Refresh_keeps_expiry:
  "\<not> expireTime (objs H0 0) < clock W0
   \<and> (\<exists>h' w'. memory_Session_Refresh H0 W0 0 = (None, h', w')
        \<and> expireTime (objs h' 0) = 12000000000
        \<and> expireTime (objs h' 0) \<noteq> clock W0 + memory_Provider.expiration P0)"
  by (simp add: memory_Session_Refresh_def time_Now_def H0_def W0_def P0_def
        memory_NewProvider_def Second_def)



section \<open>Destroying a session\<close>

lemma VerifyToken_Inr:
  assumes "VerifyToken m w tok = (Inr cl, w1)"
  shows "tok = JWS (Method m) (SignKey m) cl" and "Method m \<noteq> RS256"
    and "Validate (clock w) cl = []" and "w1 = snd (time_Now w)"
  using assms verifyToken_Inr [of m w tok cl w1] by (simp_all add: VerifyToken_def)

lemma VerifyToken_JWS:
  assumes "alg = Method m" and "alg \<noteq> RS256" and "k = SignKey m"
  shows "VerifyToken m wv (JWS alg k c) =
      (if Validate (clock wv) c = [] then Inr c
       else Inl (ErrParseToken (JwtError (ErrTokenInvalidClaims (Validate (clock wv) c)))),
       snd (time_Now wv))"
  using assms by (simp add: VerifyToken_def verifyToken_JWS)

lemma memory_Get_no_token:
  assumes "Extract (carrier p) ctx = Malformed []"
  shows "memory_Provider_Get p h w ctx = (Inl ErrTokenNotFound, p, h, w)"
  using assms by (simp add: memory_Provider_Get_def)

lemma memory_Get_bad_token:
  assumes "Extract (carrier p) ctx \<noteq> Malformed []"
    and "VerifyToken (memory_Provider.jwtManager p) w (Extract (carrier p) ctx) = (Inl e, w1)"
  shows "memory_Provider_Get p h w ctx = (Inl e, p, h, w1)"
  using assms by (simp add: memory_Provider_Get_def)

lemma memory_Get_no_session:
  assumes "VerifyToken (memory_Provider.jwtManager p) w (Extract (carrier p) ctx) = (Inr cl, w1)"
    and "sessions p (SSID cl) = None"
  shows "memory_Provider_Get p h w ctx = (Inl ErrSessionNotFound, p, h, w1)"
proof -
  from VerifyToken_Inr(1) [OF assms(1)] have "Extract (carrier p) ctx \<noteq> Malformed []" by simp
  then show ?thesis using assms by (simp add: memory_Provider_Get_def)
qed

lemma memory_Get_expired:
  assumes "VerifyToken (memory_Provider.jwtManager p) w (Extract (carrier p) ctx) = (Inr cl, w1)"
    and "sessions p (SSID cl) = Some a"
    and "expireTime (objs h a) < clock w1"
  shows "memory_Provider_Get p h w ctx =
           (Inl ErrSessionExpired, p\<lparr>sessions := (sessions p)(SSID cl := None)\<rparr>, h,
            snd (time_Now w1))"
proof -
  from VerifyToken_Inr(1) [OF assms(1)] have "Extract (carrier p) ctx \<noteq> Malformed []" by simp
  then show ?thesis using assms by (simp add: memory_Provider_Get_def time_Now_def)
qed

lemma memory_Get_ok:
  assumes "VerifyToken (memory_Provider.jwtManager p) w (Extract (carrier p) ctx) = (Inr cl, w1)"
    and "sessions p (SSID cl) = Some a"
    and "\<not> expireTime (objs h a) < clock w1"
  shows "memory_Provider_Get p h w ctx =
           (Inr a, p,
            h\<lparr>objs := (objs h)(a := (objs h a)
                 \<lparr>expireTime := clock w1 + memory_Provider.expiration p\<rparr>)\<rparr>,
            snd (time_Now w1))"
proof -
  from VerifyToken_Inr(1) [OF assms(1)] have "Extract (carrier p) ctx \<noteq> Malformed []" by simp
  then show ?thesis using assms by (simp add: memory_Provider_Get_def time_Now_def)
qed









lemma P1_simps: "memory_Provider.jwtManager P1 = M0" "carrier P1 = NewCarrier"
  "sessions P1 = [''s1'' \<mapsto> 0]" "memory_Provider.expiration P1 = 10 * Second"
  by (simp_all add: P1_def P0_def memory_NewProvider_def M0_def)

lemma Q0_simps: "redis_Provider.jwtManager Q0 = M0" "tokenCarrier Q0 = NewCarrier"
  "redis_Provider.expiration Q0 = 10 * Second"
  by (simp_all add: Q0_def redis_NewProvider_def M0_def)

lemma Extract_CTX1: "Extract NewCarrier CTX1 = TOK0"
  by (simp add: NewCarrier_def NewCarrierWithHeader_def GetHeader_def CTX1_def CTX0_def)

lemma CL0_simps: "SSID CL0 = ''s1''" "UserId CL0 = ''u1''" "Data CL0 = None"
  "ExpiresAt CL0 = Some 7000000000" "NotBefore CL0 = Some 5000000000"
  by (simp_all add: CL0_def C0_def newClaims_def)

lemma TOK0_ne: "TOK0 \<noteq> Malformed []"
  by (simp add: TOK0_def)

lemma Verify_TOK0: "VerifyToken M0 W0 TOK0 = (Inr CL0, snd (time_Now W0))"
  by (simp add: TOK0_def VerifyToken_JWS M0_simps Validate_def W0_simps CL0_simps)

lemma clock_after_W0: "clock (snd (time_Now W0)) = 5500000001"
  by (simp add: time_Now_def W0_simps)

lemma R0_simps: "calls R0 = 0" "fault R0 n = False"
  "db R0 (sessionKey ''s1'') =
     Some \<lparr>hash = [(''user_id'', JSON (AString ''u1''))], expireAt = Some 12000000000\<rparr>"
  by (simp_all add: R0_def)

lemma CTX1_not_cached: "ctx_Get CTX1 CtxSessionKey = None"
  by (simp add: ctx_Get_def CTX1_def CTX0_def)

lemma redis_Exists_example:
  "redis_Exists R0 (snd (time_Now W0)) (sessionKey ''s1'') = (Inr 1, R0\<lparr>calls := Suc 0\<rparr>)"
  by (simp add: redis_Exists_def round_trip_def live_def R0_simps clock_after_W0)

lemma redis_Get_example:
  "redis_Provider_Get Q0 R0 W0 CTX1 =
     (Inr RS0, R0\<lparr>calls := Suc 0\<rparr>, snd (time_Now W0), ctx_Set CTX1 CtxSessionKey (VSession RS0))"
  by (simp add: redis_Provider_Get_def CTX1_not_cached Q0_simps Extract_CTX1 Verify_TOK0
        TOK0_ne CL0_simps redis_Exists_example RS0_def Let_def)










section \<open>Looking a session up\<close>

lemma redis_Provider_Get_db: "db (fst (snd (redis_Provider_Get q r w ctx))) = db r"
  by (simp add: redis_Provider_Get_def redis_Exists_def round_trip_def Let_def
      split: option.splits ctx_value.splits prod.splits sum.splits)

text \<open>
  Claim C3: every successful \<open>Get\<close> refreshes the expiry of the record. The memory
  provider does; the Redis provider sends no \<open>EXPIRE\<close>. Here the record of
  \<open>s1\<close> is live and expires at 12 s; \<open>Get\<close> at 5.5 s succeeds and leaves the
  data of the server, and the expiry at 12 s, as they were, where a refresh would have
  moved the expiry past 15.5 s.
\<close>

theorem redis_Get_does_not_refresh:
  "live R0 (clock W0) (sessionKey ''s1'') =
      Some \<lparr>hash = [(''user_id'', JSON (AString ''u1''))], expireAt = Some 12000000000\<rparr>
   \<and> (\<exists>r' w' ctx'. redis_Provider_Get Q0 R0 W0 CTX1 = (Inr RS0, r', w', ctx')
         \<and> db r' = db R0
         \<and> live r' (clock w') (sessionKey ''s1'') =
             Some \<lparr>hash = [(''user_id'', JSON (AString ''u1''))], expireAt = Some 12000000000\<rparr>
         \<and> clock w' + formatSec (redis_Provider.expiration Q0) * Second = 15500000001)"
  by (simp add: redis_Get_example live_def R0_simps W0_simps clock_after_W0 Q0_simps
        formatSec_def Second_def)

lemma redis_Get_cached:
  assumes "ctx_Get ctx CtxSessionKey = Some (VSession s)"
  shows "redis_Provider_Get q r w ctx = (Inr s, r, w, ctx)"
  using assms by (simp add: redis_Provider_Get_def)

lemma redis_Get_caches:
  assumes "\<forall>s'. ctx_Get ctx CtxSessionKey \<noteq> Some (VSession s')"
    and "redis_Provider_Get q r w ctx = (Inr s, r', w', ctx')"
  shows "ctx_Get ctx' CtxSessionKey = Some (VSession s)"
  using assms
  by (auto simp: redis_Provider_Get_def redis_Exists_def round_trip_def Let_def ctx_Get_def
        ctx_Set_def split: option.splits ctx_value.splits if_splits prod.splits sum.splits)

lemma redis_Get_no_token:
  assumes "\<forall>s'. ctx_Get ctx CtxSessionKey \<noteq> Some (VSession s')"
    and "Extract (tokenCarrier q) ctx = Malformed []"
  shows "redis_Provider_Get q r w ctx = (Inl ErrNoToken, r, w, ctx)"
  using assms
  by (auto simp: redis_Provider_Get_def split: option.splits ctx_value.splits)

lemma redis_Get_bad_token:
  assumes "\<forall>s'. ctx_Get ctx CtxSessionKey \<noteq> Some (VSession s')"
    and "Extract (tokenCarrier q) ctx \<noteq> Malformed []"
    and "VerifyToken (redis_Provider.jwtManager q) w (Extract (tokenCarrier q) ctx) = (Inl e, w1)"
  shows "redis_Provider_Get q r w ctx = (Inl (ErrVerifyToken e), r, w1, ctx)"
  using assms
  by (auto simp: redis_Provider_Get_def split: option.splits ctx_value.splits)

lemma memory_Get_ignores_Keys:
  assumes "Extract (carrier p) ctx1 = Extract (carrier p) ctx2"
  shows "memory_Provider_Get p h w ctx1 = memory_Provider_Get p h w ctx2"
  using assms by (simp add: memory_Provider_Get_def)

text \<open>
  Claim C6, as the code has it. The Redis provider returns a session cached on the
  request context as it is, without reading the token, the clock or the server; a
  successful \<open>Get\<close> on a context with no cached session caches the session on the
  context it returns, so that a later \<open>Get\<close> there returns it whatever the state
  of the server. The cache is part of the context: on a context with no cached session
  \<open>Get\<close> extracts and verifies the token again. The memory provider does not
  memoize. Whatever the \<open>Keys\<close> of the context hold, its \<open>Get\<close> extracts
  the token, fails when there is none, verifies it, fails when it does not verify, looks
  the record up, fails when there is none, removes the record and fails when it has
  expired, and otherwise moves the expiry of the record to the clock plus the provider's
  duration and returns the record.
\<close>

theorem get_session_memoization:
  "(ctx_Get ctx CtxSessionKey = Some (VSession s)
      \<longrightarrow> redis_Provider_Get q r w ctx = (Inr s, r, w, ctx))
   \<and> ((\<forall>s'. ctx_Get ctx CtxSessionKey \<noteq> Some (VSession s'))
        \<and> redis_Provider_Get q r w ctx = (Inr s, r', w', ctx')
      \<longrightarrow> ctx_Get ctx' CtxSessionKey = Some (VSession s)
          \<and> redis_Provider_Get q r2 w2 ctx' = (Inr s, r2, w2, ctx'))
   \<and> ((\<forall>s'. ctx_Get ctx CtxSessionKey \<noteq> Some (VSession s'))
        \<and> Extract (tokenCarrier q) ctx = Malformed []
      \<longrightarrow> redis_Provider_Get q r w ctx = (Inl ErrNoToken, r, w, ctx))
   \<and> ((\<forall>s'. ctx_Get ctx CtxSessionKey \<noteq> Some (VSession s'))
        \<and> Extract (tokenCarrier q) ctx \<noteq> Malformed []
        \<and> VerifyToken (redis_Provider.jwtManager q) w (Extract (tokenCarrier q) ctx) = (Inl e, w1)
      \<longrightarrow> redis_Provider_Get q r w ctx = (Inl (ErrVerifyToken e), r, w1, ctx))
   \<and> (Extract (carrier p) ctx1 = Extract (carrier p) ctx2
      \<longrightarrow> memory_Provider_Get p h w ctx1 = memory_Provider_Get p h w ctx2)
   \<and> (Extract (carrier p) ctx = Malformed []
      \<longrightarrow> memory_Provider_Get p h w ctx = (Inl ErrTokenNotFound, p, h, w))
   \<and> (Extract (carrier p) ctx \<noteq> Malformed []
        \<and> VerifyToken (memory_Provider.jwtManager p) w (Extract (carrier p) ctx) = (Inl e, w1)
      \<longrightarrow> memory_Provider_Get p h w ctx = (Inl e, p, h, w1))
   \<and> (VerifyToken (memory_Provider.jwtManager p) w (Extract (carrier p) ctx) = (Inr cl, w1)
        \<and> sessions p (SSID cl) = None
      \<longrightarrow> memory_Provider_Get p h w ctx = (Inl ErrSessionNotFound, p, h, w1))
   \<and> (VerifyToken (memory_Provider.jwtManager p) w (Extract (carrier p) ctx) = (Inr cl, w1)
        \<and> sessions p (SSID cl) = Some a \<and> expireTime (objs h a) < clock w1
      \<longrightarrow> memory_Provider_Get p h w ctx =
           (Inl ErrSessionExpired, p\<lparr>sessions := (sessions p)(SSID cl := None)\<rparr>, h,
            snd (time_Now w1)))
   \<and> (VerifyToken (memory_Provider.jwtManager p) w (Extract (carrier p) ctx) = (Inr cl, w1)
        \<and> sessions p (SSID cl) = Some a \<and> \<not> expireTime (objs h a) < clock w1
      \<longrightarrow> memory_Provider_Get p h w ctx =
           (Inr a, p,
            h\<lparr>objs := (objs h)(a := (objs h a)
                 \<lparr>expireTime := clock w1 + memory_Provider.expiration p\<rparr>)\<rparr>,
            snd (time_Now w1)))"
  apply (intro conjI impI)
             apply (erule redis_Get_cached)
            apply (elim conjE, erule (1) redis_Get_caches)
           apply (elim conjE, rule redis_Get_cached, erule (1) redis_Get_caches)
          apply (elim conjE, erule (1) redis_Get_no_token)
         apply (elim conjE, erule (2) redis_Get_bad_token)
        apply (erule memory_Get_ignores_Keys)
       apply (erule memory_Get_no_token)
      apply (elim conjE, erule (1) memory_Get_bad_token)
     apply (elim conjE, erule (1) memory_Get_no_session)
    apply (elim conjE, erule (2) memory_Get_expired)
   apply (elim conjE, erule (2) memory_Get_ok)
  done

lemma CTX2_cached: "ctx_Get CTX2 CtxSessionKey = Some (VSession RS0)"
  by (simp add: ctx_Get_def CTX2_def CTX0_def)

lemma Extract_CTX2: "Extract NewCarrier CTX2 = Malformed []"
  by (simp add: NewCarrier_def NewCarrierWithHeader_def GetHeader_def CTX2_def CTX0_def)

lemma Extract_CTX0: "Extract NewCarrier CTX0 = Malformed []"
  by (simp add: NewCarrier_def NewCarrierWithHeader_def GetHeader_def CTX0_def)

lemma Extract_CTX4: "Extract NewCarrier CTX4 = TOK0"
  by (simp add: NewCarrier_def NewCarrierWithHeader_def GetHeader_def CTX4_def CTX1_def CTX0_def)

lemma CTX4_cached: "ctx_Get CTX4 CtxSessionKey = Some (VSession RS0)"
  by (simp add: ctx_Get_def CTX4_def)

lemma Verify_TOK0_late:
  "VerifyToken M0 W2 TOK0 =
     (Inl (ErrParseToken (JwtError (ErrTokenInvalidClaims [ErrTokenExpired]))), snd (time_Now W2))"
  by (simp add: TOK0_def VerifyToken_JWS M0_simps Validate_def W2_def CL0_simps)

lemma H0_live: "\<not> expireTime (objs H0 0) < clock (snd (time_Now W0))"
  by (simp add: H0_def clock_after_W0)

theorem get_session_memoization_witness:
  "redis_Provider_Get Q0 R0 W0 CTX2 = (Inr RS0, R0, W0, CTX2)
   \<and> (\<exists>r' w' ctx'. redis_Provider_Get Q0 R0 W0 CTX1 = (Inr RS0, r', w', ctx')
         \<and> redis_Provider_Get Q0 r' w' ctx' = (Inr RS0, r', w', ctx'))
   \<and> redis_Provider_Get Q0 R0 W0 CTX0 = (Inl ErrNoToken, R0, W0, CTX0)
   \<and> memory_Provider_Get P1 H0 W0 CTX2 = (Inl ErrTokenNotFound, P1, H0, W0)
   \<and> fst (memory_Provider_Get P1 H0 W0 CTX4) = Inr 0
   \<and> expireTime (objs (fst (snd (snd (memory_Provider_Get P1 H0 W0 CTX4)))) 0) = 15500000001"
proof -
  let ?r = "R0\<lparr>calls := Suc 0\<rparr>" and ?w = "snd (time_Now W0)"
    and ?c = "ctx_Set CTX1 CtxSessionKey (VSession RS0)"
  have nc0: "\<forall>s'. ctx_Get CTX0 CtxSessionKey \<noteq> Some (VSession s')"
    by (simp add: ctx_Get_def CTX0_def)
  have nc1: "\<forall>s'. ctx_Get CTX1 CtxSessionKey \<noteq> Some (VSession s')"
    by (simp add: CTX1_not_cached)
  have e0: "Extract (tokenCarrier Q0) CTX0 = Malformed []"
    by (simp add: Q0_simps Extract_CTX0)
  have em: "Extract (carrier P1) CTX2 = Malformed []"
    by (simp add: P1_simps Extract_CTX2)
  have v4: "VerifyToken (memory_Provider.jwtManager P1) W0 (Extract (carrier P1) CTX4)
              = (Inr CL0, snd (time_Now W0))"
    by (simp add: P1_simps Extract_CTX4 Verify_TOK0)
  have s4: "sessions P1 (SSID CL0) = Some 0" by (simp add: P1_simps CL0_simps)
  have 1: "redis_Provider_Get Q0 R0 W0 CTX2 = (Inr RS0, R0, W0, CTX2)"
    using get_session_memoization [where ctx = CTX2 and s = RS0 and q = Q0 and r = R0 and w = W0]
      CTX2_cached by blast
  have 2: "redis_Provider_Get Q0 ?r ?w ?c = (Inr RS0, ?r, ?w, ?c)"
    using get_session_memoization [where ctx = CTX1 and s = RS0 and q = Q0 and r = R0 and w = W0
        and r' = ?r and w' = ?w and ctx' = ?c and ?r2.0 = ?r and ?w2.0 = ?w] nc1 redis_Get_example
    by blast
  have 3: "redis_Provider_Get Q0 R0 W0 CTX0 = (Inl ErrNoToken, R0, W0, CTX0)"
    using get_session_memoization [where ctx = CTX0 and q = Q0 and r = R0 and w = W0] nc0 e0
    by blast
  have 4: "memory_Provider_Get P1 H0 W0 CTX2 = (Inl ErrTokenNotFound, P1, H0, W0)"
    using get_session_memoization [where ctx = CTX2 and p = P1 and h = H0 and w = W0] em
    by blast
  have 5: "memory_Provider_Get P1 H0 W0 CTX4 =
           (Inr 0, P1,
            H0\<lparr>objs := (objs H0)(0 := (objs H0 0)
                 \<lparr>expireTime := clock (snd (time_Now W0)) + memory_Provider.expiration P1\<rparr>)\<rparr>,
            snd (time_Now (snd (time_Now W0))))"
    using get_session_memoization [where ctx = CTX4 and p = P1 and h = H0 and w = W0
        and cl = CL0 and ?w1.0 = "snd (time_Now W0)" and a = 0] v4 s4 H0_live
    by blast
  have 6: "fst (memory_Provider_Get P1 H0 W0 CTX4) = Inr 0
      \<and> expireTime (objs (fst (snd (snd (memory_Provider_Get P1 H0 W0 CTX4)))) 0) = 15500000001"
    by (simp add: 5 clock_after_W0 P1_simps Second_def)
  from 1 2 3 4 6 redis_Get_example show ?thesis by blast
qed

text \<open>
  Claim C6 as stated fails for the memory provider. On a context that carries a valid
  token and has a session cached under the session key, \<open>Get\<close> does not return
  the cached session: at 5.5 s it verifies the token and looks the record up, reading the
  clock twice, moves the expiry of the record from 12 s to 15.500000001 s and returns the
  record; at 8 s, when the token has expired, it fails with the expiry error.
\<close>

theorem memory_Get_reverifies_despite_cache:
  "ctx_Get CTX4 CtxSessionKey = Some (VSession RS0)
   \<and> memory_Provider_Get P1 H0 W0 CTX4 =
       (Inr 0, P1,
        H0\<lparr>objs := (objs H0)(0 := (objs H0 0)\<lparr>expireTime := 15500000001\<rparr>)\<rparr>,
        snd (time_Now (snd (time_Now W0))))
   \<and> reads (snd (time_Now (snd (time_Now W0)))) = reads W0 + 2
   \<and> expireTime (objs H0 0) = 12000000000
   \<and> fst (memory_Provider_Get P1 H0 W2 CTX4) =
       Inl (ErrParseToken (JwtError (ErrTokenInvalidClaims [ErrTokenExpired])))"
proof -
  have v4: "VerifyToken (memory_Provider.jwtManager P1) W0 (Extract (carrier P1) CTX4)
              = (Inr CL0, snd (time_Now W0))"
    by (simp add: P1_simps Extract_CTX4 Verify_TOK0)
  have s4: "sessions P1 (SSID CL0) = Some 0" by (simp add: P1_simps CL0_simps)
  have 1: "memory_Provider_Get P1 H0 W0 CTX4 =
       (Inr 0, P1,
        H0\<lparr>objs := (objs H0)(0 := (objs H0 0)\<lparr>expireTime := 15500000001\<rparr>)\<rparr>,
        snd (time_Now (snd (time_Now W0))))"
    using memory_Get_ok [OF v4 s4 H0_live] by (simp add: clock_after_W0 P1_simps Second_def)
  have ne: "Extract (carrier P1) CTX4 \<noteq> Malformed []"
    by (simp add: P1_simps Extract_CTX4 TOK0_ne)
  have vl: "VerifyToken (memory_Provider.jwtManager P1) W2 (Extract (carrier P1) CTX4)
      = (Inl (ErrParseToken (JwtError (ErrTokenInvalidClaims [ErrTokenExpired]))), snd (time_Now W2))"
    by (simp add: P1_simps Extract_CTX4 Verify_TOK0_late)
  have 2: "fst (memory_Provider_Get P1 H0 W2 CTX4) =
       Inl (ErrParseToken (JwtError (ErrTokenInvalidClaims [ErrTokenExpired])))"
    by (simp add: memory_Get_bad_token [OF ne vl])
  have 3: "reads (snd (time_Now (snd (time_Now W0)))) = reads W0 + 2"
    by (simp add: time_Now_def)
  have 4: "expireTime (objs H0 0) = 12000000000" by (simp add: H0_def)
  from CTX4_cached 1 2 3 4 show ?thesis by blast
qed


section \<open>Creating a Redis session\<close>

lemma update_not_Nil: "AList.update k v al \<noteq> []"
  by (cases al) (auto simp: AList.update.simps)

lemma GenerateTokenPair_clock:
  assumes "GenerateTokenPair m w c = (Inr tp, w')"
  shows "clock w \<le> clock w'"
  using GenerateTokenPair_Inr(4) [OF assms] by simp

text \<open>
  Claim C10. Given a map (not nil) as \<open>sessData\<close>, the Redis provider's
  \<open>NewSession\<close>, once the token pair is generated (it always is for the HMAC
  methods), writes \<open>user_id\<close> and \<open>created_at\<close> into that very map: after the
  call the map at the caller's address reads as before except at these two keys, which
  hold the user id and the clock in whole seconds, whatever they held before. No other
  map and no session object changes, and on success it is the content of the changed map
  that was sent to the server. This holds whether or not the initialisation then fails.
\<close>

theorem redis_NewSession_writes_into_sessData:
  assumes hm: "Method (redis_Provider.jwtManager p) \<noteq> RS256"
    and run: "redis_Provider_NewSession p r h w ctx userId jwtData (Some a) = (res, r', h', w', ctx')"
  shows "\<exists>t. clock w \<le> t
          \<and> map_of (maps h' a) =
              (map_of (maps h a))(''user_id'' \<mapsto> AString userId,
                                  ''created_at'' \<mapsto> AInt (t div Second))
          \<and> (\<forall>b. b \<noteq> a \<longrightarrow> maps h' b = maps h b)
          \<and> objs h' = objs h \<and> brk h' = brk h
          \<and> (\<forall>sess. res = Inr sess \<longrightarrow>
                (\<exists>fvs. marshal_all (maps h' a) = Inr fvs
                   \<and> r' = expire (hset_all (r\<lparr>calls := Suc (calls r)\<rparr>) (clock w') (key sess) fvs)
                            (clock w') (key sess) (redis_Provider.expiration p)))"
proof -
  let ?cl = "newClaims userId (uuid_src w (draws w)) jwtData"
  let ?w1 = "w\<lparr>draws := Suc (draws w)\<rparr>"
  from GenerateTokenPair_HMAC [OF hm] obtain tp w2 where
    gen: "GenerateTokenPair (redis_Provider.jwtManager p) ?w1 ?cl = (Inr tp, w2)"
    by blast
  from GenerateTokenPair_clock [OF gen] have le: "clock w \<le> clock w2" by simp
  show ?thesis
    apply (rule exI [of _ "clock w2"])
    using run le
    by (auto simp: redis_Provider_NewSession_def uuid_New_def gen time_Now_def Let_def
          redis_Session_init_def redis_Pipeline_Exec_def round_trip_def update_conv'
          update_not_Nil fun_upd_twist newSession_def
          split: prod.splits sum.splits option.splits if_splits)
qed

lemma H1_map: "maps H1 (Suc 0) = [(''user_id'', AString ''guest''), (''theme'', AString ''dark'')]"
  by (simp add: H1_def)

theorem redis_NewSession_writes_into_sessData_witness:
  "\<exists>res r' h' w' ctx' t.
      redis_Provider_NewSession Q0 R0 H1 W0 CTX0 ''u1'' None (Some 1) = (res, r', h', w', ctx')
      \<and> map_of (maps H1 1) ''user_id'' = Some (AString ''guest'')
      \<and> map_of (maps h' 1) ''user_id'' = Some (AString ''u1'')
      \<and> map_of (maps h' 1) ''created_at'' = Some (AInt (t div Second))
      \<and> map_of (maps h' 1) ''theme'' = Some (AString ''dark'')"
proof -
  obtain res r' h' w' ctx' where
    run: "redis_Provider_NewSession Q0 R0 H1 W0 CTX0 ''u1'' None (Some 1) = (res, r', h', w', ctx')"
    by (metis prod_cases5)
  have hm: "Method (redis_Provider.jwtManager Q0) \<noteq> RS256" by (simp add: Q0_simps M0_simps)
  from redis_NewSession_writes_into_sessData [OF hm run] obtain t where
    "map_of (maps h' 1) =
       (map_of (maps H1 1))(''user_id'' \<mapsto> AString ''u1'', ''created_at'' \<mapsto> AInt (t div Second))"
    by blast
  then have "map_of (maps H1 1) ''user_id'' = Some (AString ''guest'')
      \<and> map_of (maps h' 1) ''user_id'' = Some (AString ''u1'')
      \<and> map_of (maps h' 1) ''created_at'' = Some (AInt (t div Second))
      \<and> map_of (maps h' 1) ''theme'' = Some (AString ''dark'')"
    by (simp add: H1_map)
  with run show ?thesis by blast
qed



section \<open>Renewing the tokens\<close>



























end
